theory Spec2Isabelle
  imports Main "HOL-Library.AList"
begin

section \<open>JSON values and Python dictionaries\<close>

text \<open>
  Request and response bodies are JSON documents. A Python \<open>dict\<close> is kept as an
  association list in insertion order; every dictionary the program builds has each key
  once. \<open>None\<close> is \<open>JNull\<close>.
\<close>

datatype json =
    JNull
  | JBool bool
  | JInt int
  | JStr string
  | JList "json list"
  | JDict "(string \<times> json) list"

text \<open>Python truthiness, as \<open>if self._session_id:\<close> tests it.\<close>

fun truthy :: "json \<Rightarrow> bool" where
  "truthy JNull = False"
| "truthy (JBool b) = b"
| "truthy (JInt i) = (i \<noteq> 0)"
| "truthy (JStr s) = (s \<noteq> [])"
| "truthy (JList xs) = (xs \<noteq> [])"
| "truthy (JDict kvs) = (kvs \<noteq> [])"

section \<open>Exceptions\<close>

text \<open>
  Every exception the modelled code can raise is a value:
  \<^item> \<open>HTTPError st\<close>: \<open>raise_for_status()\<close> on a response with status \<open>st\<close>;
  \<^item> \<open>RequestException\<close>: the HTTP library could not obtain a response at all;
  \<^item> \<open>JSONDecodeError\<close>: \<open>resp.json()\<close> on a body that is not JSON;
  \<^item> \<open>AttributeError\<close>: \<open>.get\<close> on a value that is not a dict;
  \<^item> the four \<open>ValueError\<close>s of the dataclass validators, one per message, each
    carrying the offending value that the message prints:
    \<open>Invalid day '...'\<close>, \<open>hour must be 0-23, got ...\<close>,
    \<open>minute must be 0-59, got ...\<close>, \<open>source_type must be 'INTERNET' or 'UMDS', got '...'\<close>.
\<close>

datatype error =
    HTTPError int
  | RequestException
  | JSONDecodeError
  | AttributeError
  | ValueError_day string
  | ValueError_hour int
  | ValueError_minute int
  | ValueError_source_type string

text \<open>\<open>d.get(k, dflt)\<close>; on anything but a dict the attribute does not exist.\<close>

definition dict_get :: "json \<Rightarrow> string \<Rightarrow> json \<Rightarrow> error + json" where
  "dict_get d k dflt =
     (case d of
        JDict kvs \<Rightarrow> Inr (case map_of kvs k of None \<Rightarrow> dflt | Some v \<Rightarrow> v)
      | _ \<Rightarrow> Inl AttributeError)"

section \<open>The HTTP session and the appliance (client.py)\<close>

datatype verb = GET | PUT | POST | DELETE | PATCH

text \<open>
  One outbound request as the session sends it: the verb, the URL, the headers the client
  has put on the session, the session's \<open>verify\<close> flag, the \<open>auth=\<close> pair and the
  \<open>json=\<close> body.
\<close>

record request =
  http_verb :: verb
  url :: string
  headers :: "(string \<times> json) list"
  verify :: bool
  auth :: "(string \<times> string) option"
  json_body :: "json option"

text \<open>A response: its status code and its body, \<open>None\<close> when the body is not JSON.\<close>

record response =
  status_code :: int
  content :: "json option"

text \<open>
  The appliance is any function from the requests received so far and the request at hand
  to a response, or to \<open>None\<close> when the transport fails (no response is obtained).
\<close>

type_synonym network = "request list \<Rightarrow> request \<Rightarrow> response option"

record VCenterClient =
  base_url :: string
  client_username :: string
  client_password :: string
  verify_ssl :: bool
  session_headers :: "(string \<times> json) list"
  session_id :: json

text \<open>The state a call runs in: the client object and the requests sent so far.\<close>

record world =
  client :: VCenterClient
  sent :: "request list"

type_synonym 'a io = "world \<Rightarrow> (error + 'a) \<times> world"

definition io_return :: "'a \<Rightarrow> 'a io" where
  "io_return x = (\<lambda>w. (Inr x, w))"

definition io_lift :: "error + 'a \<Rightarrow> 'a io" where
  "io_lift r = (\<lambda>w. (r, w))"

text \<open>Sequencing: an exception of the first part ends the call.\<close>

definition io_bind :: "'a io \<Rightarrow> ('a \<Rightarrow> 'b io) \<Rightarrow> 'b io" where
  "io_bind m f =
     (\<lambda>w. case m w of
        (Inl e, w') \<Rightarrow> (Inl e, w')
      | (Inr x, w') \<Rightarrow> f x w')"

definition VCenterClient_init :: "string \<Rightarrow> string \<Rightarrow> string \<Rightarrow> bool \<Rightarrow> VCenterClient" where
  "VCenterClient_init host user pw verify_flag =
     \<lparr>base_url = ''https://'' @ host, client_username = user, client_password = pw,
      verify_ssl = verify_flag, session_headers = [], session_id = JNull\<rparr>"

text \<open>\<open>self.session.<verb>(url, auth=..., json=...)\<close>.\<close>

definition session_send ::
  "network \<Rightarrow> verb \<Rightarrow> string \<Rightarrow> (string \<times> string) option \<Rightarrow> json option \<Rightarrow> response io" where
  "session_send net v u a b =
     (\<lambda>w. let rq = \<lparr>http_verb = v, url = u, headers = session_headers (client w),
                      verify = verify_ssl (client w), auth = a, json_body = b\<rparr>;
               w' = w\<lparr>sent := sent w @ [rq]\<rparr>
           in case net (sent w) rq of
                None \<Rightarrow> (Inl RequestException, w')
              | Some resp \<Rightarrow> (Inr resp, w'))"

definition raise_for_status :: "response \<Rightarrow> error + unit" where
  "raise_for_status resp =
     (if 400 \<le> status_code resp \<and> status_code resp < 600
      then Inl (HTTPError (status_code resp)) else Inr ())"

definition response_json :: "response \<Rightarrow> error + json" where
  "response_json resp = (case content resp of None \<Rightarrow> Inl JSONDecodeError | Some j \<Rightarrow> Inr j)"

definition login :: "network \<Rightarrow> unit io" where
  "login net =
     (\<lambda>w. io_bind
        (session_send net POST (base_url (client w) @ ''/api/session'')
           (Some (client_username (client w), client_password (client w))) None)
        (\<lambda>resp. io_bind (io_lift (raise_for_status resp))
          (\<lambda>_. io_bind (io_lift (response_json resp))
            (\<lambda>sid w1. (Inr (),
               w1\<lparr>client := (client w1)
                    \<lparr>session_id := sid,
                     session_headers :=
                       AList.update ''vmware-api-session-id'' sid (session_headers (client w1))\<rparr>\<rparr>))))
        w)"

definition logout :: "network \<Rightarrow> unit io" where
  "logout net =
     (\<lambda>w. if truthy (session_id (client w))
           then io_bind
                  (session_send net DELETE (base_url (client w) @ ''/api/session'') None None)
                  (\<lambda>_ w1. (Inr (), w1\<lparr>client := (client w1)\<lparr>session_id := JNull\<rparr>\<rparr>))
                  w
           else (Inr (), w))"

definition get :: "network \<Rightarrow> string \<Rightarrow> response io" where
  "get net path =
     (\<lambda>w. io_bind (session_send net GET (base_url (client w) @ path) None None)
        (\<lambda>resp. io_bind (io_lift (raise_for_status resp)) (\<lambda>_. io_return resp)) w)"

definition put :: "network \<Rightarrow> string \<Rightarrow> json option \<Rightarrow> response io" where
  "put net path body =
     (\<lambda>w. io_bind (session_send net PUT (base_url (client w) @ path) None body)
        (\<lambda>resp. io_bind (io_lift (raise_for_status resp)) (\<lambda>_. io_return resp)) w)"

definition patch :: "network \<Rightarrow> string \<Rightarrow> json option \<Rightarrow> response io" where
  "patch net path body =
     (\<lambda>w. io_bind (session_send net PATCH (base_url (client w) @ path) None body)
        (\<lambda>resp. io_bind (io_lift (raise_for_status resp)) (\<lambda>_. io_return resp)) w)"

section \<open>The settings model (downloads.py)\<close>

definition UPDATE_POLICY_PATH :: string where
  "UPDATE_POLICY_PATH = ''/api/appliance/update/policy''"

definition DEPOT_CONTENT_PATH :: string where
  "DEPOT_CONTENT_PATH = ''/api/content/subscribed-library''"

record ProxySettings =
  enabled :: bool
  server :: string
  port :: int
  username :: string
  password :: string

definition ProxySettings_to_dict :: "ProxySettings \<Rightarrow> json" where
  "ProxySettings_to_dict p =
     JDict ([(''enabled'', JBool (enabled p))]
            @ (if enabled p
               then [(''server'', JStr (server p)), (''port'', JInt (port p))]
                    @ (if username p \<noteq> []
                       then [(''username'', JStr (username p)), (''password'', JStr (password p))]
                       else [])
               else []))"

record DownloadSchedule =
  sched_enabled :: bool
  day :: string
  hour :: int
  minute :: int

definition VALID_DAYS :: "string set" where
  "VALID_DAYS =
     {''EVERYDAY'', ''MONDAY'', ''TUESDAY'', ''WEDNESDAY'',
      ''THURSDAY'', ''FRIDAY'', ''SATURDAY'', ''SUNDAY''}"

text \<open>The generated \<open>__init__\<close> followed by \<open>__post_init__\<close>.\<close>

definition DownloadSchedule_init :: "bool \<Rightarrow> string \<Rightarrow> int \<Rightarrow> int \<Rightarrow> error + DownloadSchedule" where
  "DownloadSchedule_init e d h m =
     (if d \<notin> VALID_DAYS then Inl (ValueError_day d)
      else if \<not> (0 \<le> h \<and> h \<le> 23) then Inl (ValueError_hour h)
      else if \<not> (0 \<le> m \<and> m \<le> 59) then Inl (ValueError_minute m)
      else Inr \<lparr>sched_enabled = e, day = d, hour = h, minute = m\<rparr>)"

definition DownloadSchedule_to_dict :: "DownloadSchedule \<Rightarrow> json" where
  "DownloadSchedule_to_dict s =
     JDict [(''enabled'', JBool (sched_enabled s)), (''day'', JStr (day s)),
            (''hour'', JInt (hour s)), (''minute'', JInt (minute s))]"

record DownloadSource =
  source_type :: string
  umds_url :: string

definition DownloadSource_init :: "string \<Rightarrow> string \<Rightarrow> error + DownloadSource" where
  "DownloadSource_init st u =
     (if st \<notin> {''INTERNET'', ''UMDS''} then Inl (ValueError_source_type st)
      else Inr \<lparr>source_type = st, umds_url = u\<rparr>)"

text \<open>
  \<open>auto_download_enabled\<close> is annotated \<open>bool\<close>, but the convenience operations store
  in it whatever \<open>current.get("auto_stage", True)\<close> returns and nothing checks it, so
  the field holds a JSON value.
\<close>

record DownloadSettings =
  auto_check_enabled :: bool
  auto_download_enabled :: json
  schedule :: DownloadSchedule
  source :: DownloadSource
  proxy :: ProxySettings

text \<open>
  The generated \<open>__init__\<close>: a keyword that the caller leaves out is \<open>None\<close> here and its
  \<open>default_factory\<close> runs (\<open>DownloadSchedule()\<close>, \<open>DownloadSource()\<close>,
  \<open>ProxySettings()\<close>, each with its own field defaults).
\<close>

definition DownloadSettings_init ::
  "bool \<Rightarrow> json \<Rightarrow> DownloadSchedule option \<Rightarrow> DownloadSource option \<Rightarrow> ProxySettings option
   \<Rightarrow> error + DownloadSettings" where
  "DownloadSettings_init ac ad sched_arg source_arg proxy_arg =
     (case (case sched_arg of Some s \<Rightarrow> Inr s
                            | None \<Rightarrow> DownloadSchedule_init True ''EVERYDAY'' 2 0) of
        Inl e \<Rightarrow> Inl e
      | Inr s \<Rightarrow>
          (case (case source_arg of Some x \<Rightarrow> Inr x
                                  | None \<Rightarrow> DownloadSource_init ''INTERNET'' []) of
             Inl e \<Rightarrow> Inl e
           | Inr x \<Rightarrow>
               Inr \<lparr>auto_check_enabled = ac, auto_download_enabled = ad, schedule = s,
                    source = x,
                    proxy = (case proxy_arg of
                               Some p \<Rightarrow> p
                             | None \<Rightarrow> \<lparr>enabled = False, server = [], port = 80,
                                        username = [], password = []\<rparr>)\<rparr>))"

section \<open>The operations (downloads.py)\<close>

definition get_download_settings :: "network \<Rightarrow> json io" where
  "get_download_settings net =
     io_bind (get net UPDATE_POLICY_PATH) (\<lambda>resp. io_lift (response_json resp))"

text \<open>The dict \<open>spec\<close> that \<open>_register_umds_depot\<close> builds for \<open>depot_url\<close>.\<close>

definition depot_spec :: "string \<Rightarrow> json" where
  "depot_spec depot_url =
     JDict [(''create_spec'',
       JDict [(''name'', JStr ''UMDS Patch Depot''),
              (''description'', JStr ''Local UMDS depot for Lifecycle Manager patches''),
              (''type'', JStr ''SUBSCRIBED''),
              (''subscription_info'',
                 JDict [(''subscription_url'', JStr depot_url),
                        (''authentication_method'', JStr ''NONE''),
                        (''automatic_sync_enabled'', JBool True),
                        (''on_demand'', JBool False)]),
              (''storage_backings'', JList [])])]"

text \<open>
  \<open>_register_umds_depot\<close>: the POST goes through the session directly, and whatever
  it or \<open>raise_for_status()\<close> raises is caught and dropped.
\<close>

definition register_umds_depot :: "network \<Rightarrow> string \<Rightarrow> unit io" where
  "register_umds_depot net depot_url =
     (\<lambda>w. case io_bind
                  (session_send net POST (base_url (client w) @ DEPOT_CONTENT_PATH)
                     None (Some (depot_spec depot_url)))
                  (\<lambda>resp. io_lift (raise_for_status resp)) w of
            (_, w') \<Rightarrow> (Inr (), w'))"

text \<open>The dict \<open>policy\<close> that \<open>configure_download_settings\<close> builds before it writes.\<close>

definition configure_policy :: "DownloadSettings \<Rightarrow> json" where
  "configure_policy settings =
     JDict ([(''custom_URL'', JStr []),
             (''auto_stage'', auto_download_enabled settings),
             (''check_schedule'', JList [DownloadSchedule_to_dict (schedule settings)]),
             (''username'', JStr []),
             (''password'', JStr [])]
            @ (if enabled (proxy settings)
               then [(''proxy'', ProxySettings_to_dict (proxy settings))]
               else []))"

definition configure_download_settings :: "network \<Rightarrow> DownloadSettings \<Rightarrow> json io" where
  "configure_download_settings net settings =
     io_bind (put net UPDATE_POLICY_PATH (Some (configure_policy settings)))
       (\<lambda>_. io_bind
          (if source_type (source settings) = ''UMDS'' \<and> umds_url (source settings) \<noteq> []
           then register_umds_depot net (umds_url (source settings))
           else io_return ())
          (\<lambda>_. get_download_settings net))"

definition enable_auto_download :: "network \<Rightarrow> json io" where
  "enable_auto_download net =
     io_bind (io_lift (DownloadSettings_init True (JBool True) None None None))
       (\<lambda>settings. configure_download_settings net settings)"

definition disable_auto_download :: "network \<Rightarrow> json io" where
  "disable_auto_download net =
     io_bind (io_lift (DownloadSchedule_init False ''EVERYDAY'' 2 0))
       (\<lambda>sched. io_bind
          (io_lift (DownloadSettings_init False (JBool False) (Some sched) None None))
          (\<lambda>settings. configure_download_settings net settings))"

definition set_download_schedule :: "network \<Rightarrow> string \<Rightarrow> int \<Rightarrow> int \<Rightarrow> json io" where
  "set_download_schedule net d h m =
     io_bind (get_download_settings net)
       (\<lambda>current. io_bind (io_lift (dict_get current ''auto_stage'' (JBool True)))
         (\<lambda>stage. io_bind (io_lift (DownloadSchedule_init True d h m))
           (\<lambda>sched. io_bind
              (io_lift (DownloadSettings_init True stage (Some sched) None None))
              (\<lambda>settings. configure_download_settings net settings))))"

definition set_proxy :: "network \<Rightarrow> string \<Rightarrow> int \<Rightarrow> string \<Rightarrow> string \<Rightarrow> json io" where
  "set_proxy net srv prt user pw =
     io_bind (get_download_settings net)
       (\<lambda>current. io_bind (io_lift (dict_get current ''auto_stage'' (JBool True)))
         (\<lambda>stage. io_bind
            (io_lift (DownloadSettings_init True stage None None
               (Some \<lparr>enabled = True, server = srv, port = prt,
                      username = user, password = pw\<rparr>)))
            (\<lambda>settings. configure_download_settings net settings)))"

definition clear_proxy :: "network \<Rightarrow> json io" where
  "clear_proxy net =
     io_bind (get_download_settings net)
       (\<lambda>current. io_bind (io_lift (dict_get current ''auto_stage'' (JBool True)))
         (\<lambda>stage. io_bind
            (io_lift (DownloadSettings_init True stage None None
               (Some \<lparr>enabled = False, server = [], port = 80,
                      username = [], password = []\<rparr>)))
            (\<lambda>settings. configure_download_settings net settings)))"

definition set_download_source :: "network \<Rightarrow> string \<Rightarrow> string \<Rightarrow> json io" where
  "set_download_source net st u =
     io_bind (get_download_settings net)
       (\<lambda>current. io_bind (io_lift (dict_get current ''auto_stage'' (JBool True)))
         (\<lambda>stage. io_bind (io_lift (DownloadSource_init st u))
           (\<lambda>src. io_bind
              (io_lift (DownloadSettings_init True stage None (Some src) None))
              (\<lambda>settings. configure_download_settings net settings))))"

section \<open>Observing a call\<close>

text \<open>
  The request that the client of world \<open>w\<close> sends through \<open>get\<close>, \<open>put\<close> or the
  session itself when no \<open>auth=\<close> is given: the path is appended to the base URL, and the
  headers and the \<open>verify\<close> flag are the session's.
\<close>

definition plain_request :: "world \<Rightarrow> verb \<Rightarrow> string \<Rightarrow> json option \<Rightarrow> request" where
  "plain_request w v path b =
     \<lparr>http_verb = v, url = base_url (client w) @ path, headers = session_headers (client w),
      verify = verify_ssl (client w), auth = None, json_body = b\<rparr>"

text \<open>
  What a call followed by \<open>raise_for_status()\<close> yields for an answer of the appliance,
  and whether that is a response rather than an exception.
\<close>

definition checked :: "response option \<Rightarrow> error + response" where
  "checked rep =
     (case rep of
        None \<Rightarrow> Inl RequestException
      | Some r \<Rightarrow> if 400 \<le> status_code r \<and> status_code r < 600
                  then Inl (HTTPError (status_code r)) else Inr r)"

definition accepted :: "response option \<Rightarrow> bool" where
  "accepted rep = (case checked rep of Inl e \<Rightarrow> False | Inr r \<Rightarrow> True)"

definition record_sent :: "world \<Rightarrow> request \<Rightarrow> world" where
  "record_sent w rq = w\<lparr>sent := sent w @ [rq]\<rparr>"

text \<open>The requests that a call started in world \<open>w\<close> issues, in order.\<close>

definition issued :: "'a io \<Rightarrow> world \<Rightarrow> request list" where
  "issued m w = drop (length (sent w)) (sent (snd (m w)))"

text \<open>The value found in a JSON document by following keys through nested dicts.\<close>

fun json_at :: "string list \<Rightarrow> json \<Rightarrow> json option" where
  "json_at [] j = Some j"
| "json_at (k # ks) (JDict kvs) =
     (case map_of kvs k of None \<Rightarrow> None | Some v \<Rightarrow> json_at ks v)"
| "json_at (k # ks) j = None"

section \<open>A lab appliance\<close>

text \<open>
  A concrete appliance for running the operations: its policy has staging off and a
  Monday 03:30 schedule, it answers every depot registration with a 409 conflict and
  every other request with 200 and the policy. \<open>down_net\<close> is the same appliance with
  the content library unreachable, and \<open>refusing_net\<close> rejects everything with 500.
\<close>

definition lab_policy :: json where
  "lab_policy =
     JDict [(''auto_stage'', JBool False),
            (''check_schedule'',
               JList [JDict [(''enabled'', JBool True), (''day'', JStr ''MONDAY''),
                             (''hour'', JInt 3), (''minute'', JInt 30)]])]"

definition lab_net :: network where
  "lab_net hist rq =
     (if http_verb rq = POST then Some \<lparr>status_code = 409, content = None\<rparr>
      else Some \<lparr>status_code = 200, content = Some lab_policy\<rparr>)"

definition down_net :: network where
  "down_net hist rq =
     (if http_verb rq = POST then None
      else Some \<lparr>status_code = 200, content = Some lab_policy\<rparr>)"

definition refusing_net :: network where
  "refusing_net hist rq = Some \<lparr>status_code = 500, content = None\<rparr>"

definition lab_world :: world where
  "lab_world =
     \<lparr>client = (VCenterClient_init ''vc.lab'' ''admin'' ''secret'' False)
                 \<lparr>session_id := JStr ''tok'',
                  session_headers := [(''vmware-api-session-id'', JStr ''tok'')]\<rparr>,
      sent = []\<rparr>"

definition idle_world :: world where
  "idle_world =
     \<lparr>client = VCenterClient_init ''vc.lab'' ''admin'' ''secret'' False, sent = []\<rparr>"

definition umds_settings :: DownloadSettings where
  "umds_settings =
     \<lparr>auto_check_enabled = True, auto_download_enabled = JBool True,
      schedule = \<lparr>sched_enabled = True, day = ''EVERYDAY'', hour = 2, minute = 0\<rparr>,
      source = \<lparr>source_type = ''UMDS'', umds_url = ''https://umds.local/depot''\<rparr>,
      proxy = \<lparr>enabled = False, server = [], port = 80, username = [], password = []\<rparr>\<rparr>"

section \<open>What each primitive does to the world\<close>

lemma get_unfold:
  "get net path w =
     (checked (net (sent w) (plain_request w GET path None)),
      record_sent w (plain_request w GET path None))"
  by (simp add: get_def io_bind_def session_send_def io_lift_def io_return_def
      raise_for_status_def plain_request_def record_sent_def checked_def Let_def
      split: option.splits)

lemma put_unfold:
  "put net path b w =
     (checked (net (sent w) (plain_request w PUT path b)),
      record_sent w (plain_request w PUT path b))"
  by (simp add: put_def io_bind_def session_send_def io_lift_def io_return_def
      raise_for_status_def plain_request_def record_sent_def checked_def Let_def
      split: option.splits)

lemma get_download_settings_unfold:
  "get_download_settings net w =
     (case checked (net (sent w) (plain_request w GET UPDATE_POLICY_PATH None)) of
        Inl e \<Rightarrow> Inl e
      | Inr r \<Rightarrow> response_json r,
      record_sent w (plain_request w GET UPDATE_POLICY_PATH None))"
  by (simp add: get_download_settings_def io_bind_def get_unfold io_lift_def split: sum.splits)

lemma register_umds_depot_unfold:
  "register_umds_depot net u w =
     (Inr (), record_sent w (plain_request w POST DEPOT_CONTENT_PATH (Some (depot_spec u))))"
  by (simp add: register_umds_depot_def io_bind_def session_send_def io_lift_def
      plain_request_def record_sent_def Let_def split: option.splits sum.splits prod.splits)

lemma plain_request_record_sent [simp]:
  "plain_request (record_sent w rq) v path b = plain_request w v path b"
  by (simp add: plain_request_def record_sent_def)

lemma record_sent_simps [simp]:
  "client (record_sent w rq) = client w"
  "sent (record_sent w rq) = sent w @ [rq]"
  by (simp_all add: record_sent_def)

lemma configure_unfold:
  "configure_download_settings net s w =
     (let p = plain_request w PUT UPDATE_POLICY_PATH (Some (configure_policy s));
          w1 = record_sent w p
      in case checked (net (sent w) p) of
           Inl e \<Rightarrow> (Inl e, w1)
         | Inr r \<Rightarrow>
             get_download_settings net
               (if source_type (source s) = ''UMDS'' \<and> umds_url (source s) \<noteq> []
                then record_sent w1
                       (plain_request w POST DEPOT_CONTENT_PATH
                          (Some (depot_spec (umds_url (source s)))))
                else w1))"
  by (auto simp add: configure_download_settings_def io_bind_def put_unfold
      register_umds_depot_unfold io_return_def Let_def split: sum.splits)

lemma accepted_checked: "accepted rep \<Longrightarrow> \<exists>r. checked rep = Inr r"
  by (simp add: accepted_def split: sum.splits)

lemma issued_get_download_settings:
  "issued (get_download_settings net) w = [plain_request w GET UPDATE_POLICY_PATH None]"
  by (simp add: issued_def get_download_settings_unfold)

lemma issued_configure:
  "issued (configure_download_settings net s) w =
     plain_request w PUT UPDATE_POLICY_PATH (Some (configure_policy s))
     # (if accepted (net (sent w)
               (plain_request w PUT UPDATE_POLICY_PATH (Some (configure_policy s))))
        then (if source_type (source s) = ''UMDS'' \<and> umds_url (source s) \<noteq> []
              then [plain_request w POST DEPOT_CONTENT_PATH
                      (Some (depot_spec (umds_url (source s))))]
              else [])
             @ [plain_request w GET UPDATE_POLICY_PATH None]
        else [])"
  by (simp add: issued_def configure_unfold get_download_settings_unfold accepted_def Let_def
      split: sum.splits)

lemma sent_configure_prefix:
  "\<exists>new. sent (snd (configure_download_settings net s w)) = sent w @ new"
  by (simp add: configure_unfold get_download_settings_unfold Let_def split: sum.splits)

lemma sent_configure:
  "sent (snd (configure_download_settings net s w)) =
     sent w @ issued (configure_download_settings net s) w"
  using sent_configure_prefix [of net s w] by (auto simp add: issued_def)

lemma issued_read_then_configure:
  assumes "m w = configure_download_settings net s
                    (record_sent w (plain_request w GET UPDATE_POLICY_PATH None))"
  shows "issued m w =
           plain_request w GET UPDATE_POLICY_PATH None
           # issued (configure_download_settings net s)
               (record_sent w (plain_request w GET UPDATE_POLICY_PATH None))"
proof -
  let ?w1 = "record_sent w (plain_request w GET UPDATE_POLICY_PATH None)"
  have "sent (snd (m w)) = sent ?w1 @ issued (configure_download_settings net s) ?w1"
    using assms sent_configure [of net s ?w1] by simp
  then show ?thesis by (simp add: issued_def)
qed

lemma configure_reread:
  assumes "accepted (net (sent w)
            (plain_request w PUT UPDATE_POLICY_PATH (Some (configure_policy s))))"
  shows "\<exists>w2. configure_download_settings net s w = get_download_settings net w2
           \<and> client w2 = client w
           \<and> sent (snd (configure_download_settings net s w)) =
               sent w2 @ [plain_request w GET UPDATE_POLICY_PATH None]"
proof -
  let ?put = "plain_request w PUT UPDATE_POLICY_PATH (Some (configure_policy s))"
  let ?post = "plain_request w POST DEPOT_CONTENT_PATH (Some (depot_spec (umds_url (source s))))"
  let ?w1 = "record_sent w ?put"
  let ?w2 = "if source_type (source s) = ''UMDS'' \<and> umds_url (source s) \<noteq> []
             then record_sent ?w1 ?post else ?w1"
  from assms obtain r0 where r0: "checked (net (sent w) ?put) = Inr r0"
    using accepted_checked by blast
  have run: "configure_download_settings net s w = get_download_settings net ?w2"
    by (simp add: configure_unfold r0 Let_def)
  have cl: "client ?w2 = client w" by simp
  have log: "sent (snd (configure_download_settings net s w)) =
               sent ?w2 @ [plain_request w GET UPDATE_POLICY_PATH None]"
    by (simp only: run) (simp add: get_download_settings_unfold)
  from run cl log show ?thesis by blast
qed

lemma configure_ignores_post_replies:
  assumes "\<forall>hist q. http_verb q \<noteq> POST \<longrightarrow> net' hist q = net hist q"
  shows "configure_download_settings net' s w = configure_download_settings net s w"
proof -
  have eq: "net' hist (plain_request w0 v path b) = net hist (plain_request w0 v path b)"
    if "v \<noteq> POST" for hist w0 v path b
    using assms that by (simp add: plain_request_def)
  have reread: "get_download_settings net' w0 = get_download_settings net w0" for w0
    by (simp add: get_download_settings_unfold eq)
  show ?thesis
    by (simp add: configure_unfold eq reread Let_def split: sum.splits)
qed

lemma card_VALID_DAYS: "card VALID_DAYS = 8"
  by (simp add: VALID_DAYS_def)

lemma DownloadSchedule_init_ok_iff:
  "(\<exists>s. DownloadSchedule_init e d h m = Inr s) \<longleftrightarrow>
     d \<in> VALID_DAYS \<and> 0 \<le> h \<and> h \<le> 23 \<and> 0 \<le> m \<and> m \<le> 59"
  by (auto simp add: DownloadSchedule_init_def)

lemma logout_inactive:
  "\<not> truthy (session_id (client w)) \<Longrightarrow> logout net w = (Inr (), w)"
  by (simp add: logout_def)

lemma logout_returns_cleared:
  "logout net w = (Inr (), w') \<Longrightarrow> \<not> truthy (session_id (client w'))"
  by (auto simp add: logout_def io_bind_def session_send_def Let_def
      split: if_splits option.splits)

lemma logout_twice: "io_bind (logout net) (\<lambda>_. logout net) w = logout net w"
proof (cases "logout net w")
  case (Pair res w')
  show ?thesis
  proof (cases res)
    case (Inl e)
    with Pair show ?thesis by (simp add: io_bind_def)
  next
    case (Inr u)
    with Pair have "logout net w = (Inr (), w')" by simp
    then have "\<not> truthy (session_id (client w'))" by (rule logout_returns_cleared)
    then have "logout net w' = (Inr (), w')" by (rule logout_inactive)
    with Pair Inr show ?thesis by (simp add: io_bind_def)
  qed
qed

section \<open>The claims\<close>

text \<open>
  C1. Each of \<open>set_proxy\<close>, \<open>clear_proxy\<close>, \<open>set_download_schedule\<close> and
  \<open>set_download_source\<close> first reads the remote policy. When the read is answered with an
  accepted response whose body is a JSON object \<open>cur\<close>, the operation is
  \<open>configure_download_settings\<close>, run after that read, on a settings value that takes from
  \<open>cur\<close> only \<open>cur.get("auto_stage", True)\<close>; every field that is not the target of the
  operation has its construction default (for the schedule and the source operation:
  whenever the arguments pass validation). In particular \<open>set_proxy\<close> issues the GET and then
  a PUT whose \<open>check_schedule\<close> is the single entry
  \<open>{enabled: true, day: "EVERYDAY", hour: 2, minute: 0}\<close>, whatever schedule \<open>cur\<close> holds.
\<close>

theorem convenience_operations_merge_auto_stage_only:
  assumes answered: "net (sent w) (plain_request w GET UPDATE_POLICY_PATH None) = Some r"
    and ok: "\<not> (400 \<le> status_code r \<and> status_code r < 600)"
    and body: "content r = Some (JDict cur)"
  shows "let stage = (case map_of cur ''auto_stage'' of None \<Rightarrow> JBool True | Some v \<Rightarrow> v);
             w1 = record_sent w (plain_request w GET UPDATE_POLICY_PATH None);
             default_schedule =
               \<lparr>sched_enabled = True, day = ''EVERYDAY'', hour = 2, minute = 0\<rparr>;
             default_source = \<lparr>source_type = ''INTERNET'', umds_url = []\<rparr>;
             default_proxy =
               \<lparr>enabled = False, server = [], port = 80, username = [], password = []\<rparr>
         in set_proxy net srv prt user pw w =
              configure_download_settings net
                \<lparr>auto_check_enabled = True, auto_download_enabled = stage,
                 schedule = default_schedule, source = default_source,
                 proxy = \<lparr>enabled = True, server = srv, port = prt,
                          username = user, password = pw\<rparr>\<rparr> w1
          \<and> clear_proxy net w =
              configure_download_settings net
                \<lparr>auto_check_enabled = True, auto_download_enabled = stage,
                 schedule = default_schedule, source = default_source,
                 proxy = default_proxy\<rparr> w1
          \<and> (d \<in> VALID_DAYS \<and> 0 \<le> h \<and> h \<le> 23 \<and> 0 \<le> m \<and> m \<le> 59 \<longrightarrow>
               set_download_schedule net d h m w =
                 configure_download_settings net
                   \<lparr>auto_check_enabled = True, auto_download_enabled = stage,
                    schedule = \<lparr>sched_enabled = True, day = d, hour = h, minute = m\<rparr>,
                    source = default_source, proxy = default_proxy\<rparr> w1)
          \<and> (st \<in> {''INTERNET'', ''UMDS''} \<longrightarrow>
               set_download_source net st u w =
                 configure_download_settings net
                   \<lparr>auto_check_enabled = True, auto_download_enabled = stage,
                    schedule = default_schedule,
                    source = \<lparr>source_type = st, umds_url = u\<rparr>, proxy = default_proxy\<rparr> w1)
          \<and> (\<exists>kvs rest.
                issued (set_proxy net srv prt user pw) w =
                  plain_request w GET UPDATE_POLICY_PATH None
                  # plain_request w PUT UPDATE_POLICY_PATH (Some (JDict kvs)) # rest
                \<and> map_of kvs ''auto_stage'' = Some stage
                \<and> map_of kvs ''check_schedule'' =
                    Some (JList [JDict [(''enabled'', JBool True), (''day'', JStr ''EVERYDAY''),
                                        (''hour'', JInt 2), (''minute'', JInt 0)]]))"
proof -
  let ?stage = "case map_of cur ''auto_stage'' of None \<Rightarrow> JBool True | Some v \<Rightarrow> v"
  let ?w1 = "record_sent w (plain_request w GET UPDATE_POLICY_PATH None)"
  let ?sched = "\<lparr>sched_enabled = True, day = ''EVERYDAY'', hour = 2, minute = 0\<rparr>"
  let ?src = "\<lparr>source_type = ''INTERNET'', umds_url = []\<rparr>"
  let ?prx = "\<lparr>enabled = False, server = [], port = 80, username = [], password = []\<rparr>"
  let ?sp = "\<lparr>auto_check_enabled = True, auto_download_enabled = ?stage,
                 schedule = ?sched, source = ?src,
                 proxy = \<lparr>enabled = True, server = srv, port = prt,
                          username = user, password = pw\<rparr>\<rparr>"
  have read: "get_download_settings net w = (Inr (JDict cur), ?w1)"
    using answered ok body
    by (simp add: get_download_settings_unfold checked_def response_json_def)
  have dsched: "DownloadSchedule_init True ''EVERYDAY'' 2 0 = Inr ?sched"
    by (simp add: DownloadSchedule_init_def VALID_DAYS_def)
  have dsrc: "DownloadSource_init ''INTERNET'' [] = Inr ?src"
    by (simp add: DownloadSource_init_def)
  have a: "set_proxy net srv prt user pw w = configure_download_settings net ?sp ?w1"
    by (simp add: set_proxy_def io_bind_def io_lift_def read dict_get_def
        DownloadSettings_init_def dsched dsrc)
  have b: "clear_proxy net w =
              configure_download_settings net
                \<lparr>auto_check_enabled = True, auto_download_enabled = ?stage,
                 schedule = ?sched, source = ?src, proxy = ?prx\<rparr> ?w1"
    by (simp add: clear_proxy_def io_bind_def io_lift_def read dict_get_def
        DownloadSettings_init_def dsched dsrc)
  have c: "d \<in> VALID_DAYS \<and> 0 \<le> h \<and> h \<le> 23 \<and> 0 \<le> m \<and> m \<le> 59 \<longrightarrow>
               set_download_schedule net d h m w =
                 configure_download_settings net
                   \<lparr>auto_check_enabled = True, auto_download_enabled = ?stage,
                    schedule = \<lparr>sched_enabled = True, day = d, hour = h, minute = m\<rparr>,
                    source = ?src, proxy = ?prx\<rparr> ?w1"
    by (simp add: set_download_schedule_def io_bind_def io_lift_def read dict_get_def
        DownloadSettings_init_def DownloadSchedule_init_def dsrc)
  have e: "st \<in> {''INTERNET'', ''UMDS''} \<longrightarrow>
               set_download_source net st u w =
                 configure_download_settings net
                   \<lparr>auto_check_enabled = True, auto_download_enabled = ?stage,
                    schedule = ?sched,
                    source = \<lparr>source_type = st, umds_url = u\<rparr>, proxy = ?prx\<rparr> ?w1"
    by (auto simp add: set_download_source_def io_bind_def io_lift_def read dict_get_def
        DownloadSettings_init_def DownloadSource_init_def dsched)
  obtain kvs where kvs: "configure_policy ?sp = JDict kvs"
    and k1: "map_of kvs ''auto_stage'' = Some ?stage"
    and k2: "map_of kvs ''check_schedule'' =
                    Some (JList [JDict [(''enabled'', JBool True), (''day'', JStr ''EVERYDAY''),
                                        (''hour'', JInt 2), (''minute'', JInt 0)]])"
    by (simp add: configure_policy_def DownloadSchedule_to_dict_def)
  have "\<exists>rest. issued (set_proxy net srv prt user pw) w =
                  plain_request w GET UPDATE_POLICY_PATH None
                  # plain_request w PUT UPDATE_POLICY_PATH (Some (JDict kvs)) # rest"
    using issued_read_then_configure [of "set_proxy net srv prt user pw" w net ?sp, OF a] by (simp add: issued_configure kvs)
  with k1 k2 have f: "\<exists>kvs rest.
                issued (set_proxy net srv prt user pw) w =
                  plain_request w GET UPDATE_POLICY_PATH None
                  # plain_request w PUT UPDATE_POLICY_PATH (Some (JDict kvs)) # rest
                \<and> map_of kvs ''auto_stage'' = Some ?stage
                \<and> map_of kvs ''check_schedule'' =
                    Some (JList [JDict [(''enabled'', JBool True), (''day'', JStr ''EVERYDAY''),
                                        (''hour'', JInt 2), (''minute'', JInt 0)]])"
    by blast
  from a b c e f show ?thesis by (simp only: Let_def)
qed

text \<open>
  The lab appliance holds a Monday 03:30 schedule with staging off: \<open>set_proxy\<close> writes
  the default schedule and carries \<open>auto_stage = false\<close> forward.
\<close>

theorem convenience_operations_merge_auto_stage_only_witness:
  "lab_net (sent lab_world) (plain_request lab_world GET UPDATE_POLICY_PATH None) =
     Some \<lparr>status_code = 200, content = Some lab_policy\<rparr>
   \<and> json_at [''check_schedule''] lab_policy =
       Some (JList [JDict [(''enabled'', JBool True), (''day'', JStr ''MONDAY''),
                           (''hour'', JInt 3), (''minute'', JInt 30)]])
   \<and> set_proxy lab_net ''proxy.corp.com'' 8080 [] [] lab_world =
       configure_download_settings lab_net
         \<lparr>auto_check_enabled = True, auto_download_enabled = JBool False,
          schedule = \<lparr>sched_enabled = True, day = ''EVERYDAY'', hour = 2, minute = 0\<rparr>,
          source = \<lparr>source_type = ''INTERNET'', umds_url = []\<rparr>,
          proxy = \<lparr>enabled = True, server = ''proxy.corp.com'', port = 8080,
                   username = [], password = []\<rparr>\<rparr>
         (record_sent lab_world (plain_request lab_world GET UPDATE_POLICY_PATH None))
   \<and> set_download_schedule lab_net ''SUNDAY'' 23 59 lab_world =
       configure_download_settings lab_net
         \<lparr>auto_check_enabled = True, auto_download_enabled = JBool False,
          schedule = \<lparr>sched_enabled = True, day = ''SUNDAY'', hour = 23, minute = 59\<rparr>,
          source = \<lparr>source_type = ''INTERNET'', umds_url = []\<rparr>,
          proxy = \<lparr>enabled = False, server = [], port = 80, username = [], password = []\<rparr>\<rparr>
         (record_sent lab_world (plain_request lab_world GET UPDATE_POLICY_PATH None))
   \<and> set_download_source lab_net ''UMDS'' ''https://umds.local/depot'' lab_world =
       configure_download_settings lab_net
         \<lparr>auto_check_enabled = True, auto_download_enabled = JBool False,
          schedule = \<lparr>sched_enabled = True, day = ''EVERYDAY'', hour = 2, minute = 0\<rparr>,
          source = \<lparr>source_type = ''UMDS'', umds_url = ''https://umds.local/depot''\<rparr>,
          proxy = \<lparr>enabled = False, server = [], port = 80, username = [], password = []\<rparr>\<rparr>
         (record_sent lab_world (plain_request lab_world GET UPDATE_POLICY_PATH None))
   \<and> (\<exists>kvs rest.
         issued (set_proxy lab_net ''proxy.corp.com'' 8080 [] []) lab_world =
           plain_request lab_world GET UPDATE_POLICY_PATH None
           # plain_request lab_world PUT UPDATE_POLICY_PATH (Some (JDict kvs)) # rest
         \<and> map_of kvs ''auto_stage'' = Some (JBool False)
         \<and> map_of kvs ''check_schedule'' =
             Some (JList [JDict [(''enabled'', JBool True), (''day'', JStr ''EVERYDAY''),
                                 (''hour'', JInt 2), (''minute'', JInt 0)]]))"
proof -
  let ?cur = "[(''auto_stage'', JBool False),
               (''check_schedule'',
                  JList [JDict [(''enabled'', JBool True), (''day'', JStr ''MONDAY''),
                                (''hour'', JInt 3), (''minute'', JInt 30)]])]"
  let ?r = "\<lparr>status_code = 200, content = Some lab_policy\<rparr>"
  have rep: "lab_net (sent lab_world) (plain_request lab_world GET UPDATE_POLICY_PATH None) =
     Some ?r"
    by (simp add: lab_net_def plain_request_def)
  have ok: "\<not> (400 \<le> status_code ?r \<and> status_code ?r < 600)"
    by simp
  have body: "content ?r = Some (JDict ?cur)"
    by (simp add: lab_policy_def)
  have sched: "json_at [''check_schedule''] lab_policy =
       Some (JList [JDict [(''enabled'', JBool True), (''day'', JStr ''MONDAY''),
                           (''hour'', JInt 3), (''minute'', JInt 30)]])"
    by (simp add: lab_policy_def)
  have stage: "(case map_of ?cur ''auto_stage'' of None \<Rightarrow> JBool True | Some v \<Rightarrow> v) =
      JBool False"
    by simp
  have days: "''SUNDAY'' \<in> VALID_DAYS"
    by (simp add: VALID_DAYS_def)
  note inst = convenience_operations_merge_auto_stage_only
      [where net = lab_net and w = lab_world and r = ?r and cur = ?cur
         and srv = "''proxy.corp.com''" and prt = 8080 and user = "[]" and pw = "[]"
         and d = "''SUNDAY''" and h = 23 and m = 59
         and st = "''UMDS''" and u = "''https://umds.local/depot''",
       OF rep ok body, unfolded Let_def stage]
  from inst days rep sched show ?thesis
    by simp
qed

text \<open>
  C2. For every settings value, the first request of \<open>configure_download_settings\<close> is
  the PUT of the policy document and no other PUT follows. In the document \<open>auto_stage\<close> is
  \<open>settings.auto_download_enabled\<close>, \<open>check_schedule\<close> is the one-element list
  \<open>[settings.schedule.to_dict()]\<close>, \<open>custom_URL\<close>, \<open>username\<close> and \<open>password\<close> are
  the empty string, and the key \<open>proxy\<close> is present, with value
  \<open>settings.proxy.to_dict()\<close>, exactly when \<open>settings.proxy.enabled\<close> is true.
\<close>

theorem configure_writes_policy:
  "\<exists>kvs rest.
     issued (configure_download_settings net s) w =
       plain_request w PUT UPDATE_POLICY_PATH (Some (JDict kvs)) # rest
     \<and> filter (\<lambda>q. http_verb q = PUT) rest = []
     \<and> map_of kvs ''auto_stage'' = Some (auto_download_enabled s)
     \<and> map_of kvs ''check_schedule'' = Some (JList [DownloadSchedule_to_dict (schedule s)])
     \<and> map_of kvs ''custom_URL'' = Some (JStr [])
     \<and> map_of kvs ''username'' = Some (JStr [])
     \<and> map_of kvs ''password'' = Some (JStr [])
     \<and> map_of kvs ''proxy'' =
         (if enabled (proxy s) then Some (ProxySettings_to_dict (proxy s)) else None)
     \<and> map fst kvs =
         [''custom_URL'', ''auto_stage'', ''check_schedule'', ''username'', ''password'']
         @ (if enabled (proxy s) then [''proxy''] else [])"
proof -
  obtain kvs where kvs: "kvs =
      [(''custom_URL'', JStr []), (''auto_stage'', auto_download_enabled s),
       (''check_schedule'', JList [DownloadSchedule_to_dict (schedule s)]),
       (''username'', JStr []), (''password'', JStr [])]
      @ (if enabled (proxy s) then [(''proxy'', ProxySettings_to_dict (proxy s))] else [])"
    by simp
  have pol: "configure_policy s = JDict kvs"
    by (simp add: configure_policy_def kvs)
  obtain rest where rest: "rest =
       (if accepted (net (sent w)
               (plain_request w PUT UPDATE_POLICY_PATH (Some (configure_policy s))))
        then (if source_type (source s) = ''UMDS'' \<and> umds_url (source s) \<noteq> []
              then [plain_request w POST DEPOT_CONTENT_PATH
                      (Some (depot_spec (umds_url (source s))))]
              else [])
             @ [plain_request w GET UPDATE_POLICY_PATH None]
        else [])"
    by simp
  have log: "issued (configure_download_settings net s) w =
       plain_request w PUT UPDATE_POLICY_PATH (Some (JDict kvs)) # rest"
    using issued_configure [of net s w] by (simp only: rest pol)
  have noput: "filter (\<lambda>q. http_verb q = PUT) rest = []"
    by (simp add: rest plain_request_def)
  have l1: "map_of kvs ''auto_stage'' = Some (auto_download_enabled s)"
    and l2: "map_of kvs ''check_schedule'' = Some (JList [DownloadSchedule_to_dict (schedule s)])"
    and l3: "map_of kvs ''custom_URL'' = Some (JStr [])"
    and l4: "map_of kvs ''username'' = Some (JStr [])"
    and l5: "map_of kvs ''password'' = Some (JStr [])"
    and l6: "map_of kvs ''proxy'' =
         (if enabled (proxy s) then Some (ProxySettings_to_dict (proxy s)) else None)"
    and l7: "map fst kvs =
         [''custom_URL'', ''auto_stage'', ''check_schedule'', ''username'', ''password'']
         @ (if enabled (proxy s) then [''proxy''] else [])"
    by (simp_all add: kvs)
  from log noput l1 l2 l3 l4 l5 l6 l7 show ?thesis by blast
qed

text \<open>
  C3. In a run of \<open>configure_download_settings\<close> whose policy write is accepted, the
  depot registration is posted exactly once, with a spec whose
  \<open>create_spec.subscription_info.subscription_url\<close> is \<open>settings.source.umds_url\<close>, when
  the source type is \<open>"UMDS"\<close> and the URL is non-empty, and not at all otherwise. The last
  request is the re-read of the policy; when the re-read is answered with an accepted
  response with a JSON body, that body is returned, whatever the appliance answered to the
  registration. Changing the answers to POST requests in any way (any status, no response
  at all) changes neither the result nor the requests of the call.
\<close>

theorem configure_registers_depot:
  assumes written: "accepted (net (sent w)
            (plain_request w PUT UPDATE_POLICY_PATH (Some (configure_policy s))))"
  shows "filter (\<lambda>q. http_verb q = POST) (issued (configure_download_settings net s) w) =
           (if source_type (source s) = ''UMDS'' \<and> umds_url (source s) \<noteq> []
            then [plain_request w POST DEPOT_CONTENT_PATH
                    (Some (depot_spec (umds_url (source s))))]
            else [])
         \<and> json_at [''create_spec'', ''subscription_info'', ''subscription_url'']
             (depot_spec (umds_url (source s))) = Some (JStr (umds_url (source s)))
         \<and> last (issued (configure_download_settings net s) w) =
             plain_request w GET UPDATE_POLICY_PATH None
         \<and> (\<forall>r body.
               net (butlast (sent (snd (configure_download_settings net s w))))
                 (plain_request w GET UPDATE_POLICY_PATH None) = Some r
               \<and> \<not> (400 \<le> status_code r \<and> status_code r < 600)
               \<and> content r = Some body
              \<longrightarrow> fst (configure_download_settings net s w) = Inr body)
         \<and> (\<forall>net'. (\<forall>hist q. http_verb q \<noteq> POST \<longrightarrow> net' hist q = net hist q)
              \<longrightarrow> configure_download_settings net' s w = configure_download_settings net s w)"
proof -
  have posts: "filter (\<lambda>q. http_verb q = POST) (issued (configure_download_settings net s) w) =
           (if source_type (source s) = ''UMDS'' \<and> umds_url (source s) \<noteq> []
            then [plain_request w POST DEPOT_CONTENT_PATH
                    (Some (depot_spec (umds_url (source s))))]
            else [])"
    using written by (simp add: issued_configure plain_request_def)
  have spec: "json_at [''create_spec'', ''subscription_info'', ''subscription_url'']
             (depot_spec (umds_url (source s))) = Some (JStr (umds_url (source s)))"
    by (simp add: depot_spec_def)
  have lst: "last (issued (configure_download_settings net s) w) =
             plain_request w GET UPDATE_POLICY_PATH None"
    using written by (simp add: issued_configure)
  from configure_reread [where net = net and w = w and s = s, OF written] obtain w2
    where run: "configure_download_settings net s w = get_download_settings net w2"
      and cl: "client w2 = client w"
      and log: "sent (snd (configure_download_settings net s w)) =
               sent w2 @ [plain_request w GET UPDATE_POLICY_PATH None]"
    by blast
  have same_rq: "plain_request w2 GET UPDATE_POLICY_PATH None =
                 plain_request w GET UPDATE_POLICY_PATH None"
    by (simp add: plain_request_def cl)
  have res: "\<forall>r body.
               net (butlast (sent (snd (configure_download_settings net s w))))
                 (plain_request w GET UPDATE_POLICY_PATH None) = Some r
               \<and> \<not> (400 \<le> status_code r \<and> status_code r < 600)
               \<and> content r = Some body
              \<longrightarrow> fst (configure_download_settings net s w) = Inr body"
    by (simp only: log butlast_snoc)
      (auto simp add: run get_download_settings_unfold same_rq checked_def response_json_def)
  have indep: "\<forall>net'. (\<forall>hist q. http_verb q \<noteq> POST \<longrightarrow> net' hist q = net hist q)
              \<longrightarrow> configure_download_settings net' s w = configure_download_settings net s w"
    using configure_ignores_post_replies by blast
  from posts spec lst res indep show ?thesis by blast
qed

text \<open>
  On the lab appliance the registration is answered with a 409 conflict, and on
  \<open>down_net\<close> it gets no response: the call returns the re-read policy all the same.
\<close>

theorem configure_registers_depot_witness:
  "accepted (lab_net (sent lab_world)
      (plain_request lab_world PUT UPDATE_POLICY_PATH (Some (configure_policy umds_settings))))
   \<and> lab_net [] (plain_request lab_world POST DEPOT_CONTENT_PATH
        (Some (depot_spec ''https://umds.local/depot''))) =
       Some \<lparr>status_code = 409, content = None\<rparr>
   \<and> filter (\<lambda>q. http_verb q = POST)
       (issued (configure_download_settings lab_net umds_settings) lab_world) =
       [plain_request lab_world POST DEPOT_CONTENT_PATH
          (Some (depot_spec ''https://umds.local/depot''))]
   \<and> fst (configure_download_settings lab_net umds_settings lab_world) = Inr lab_policy
   \<and> configure_download_settings down_net umds_settings lab_world =
       configure_download_settings lab_net umds_settings lab_world"
proof -
  have written: "accepted (lab_net (sent lab_world)
      (plain_request lab_world PUT UPDATE_POLICY_PATH (Some (configure_policy umds_settings))))"
    by (simp add: accepted_def checked_def lab_net_def plain_request_def)
  have conflict: "lab_net [] (plain_request lab_world POST DEPOT_CONTENT_PATH
        (Some (depot_spec ''https://umds.local/depot''))) =
       Some \<lparr>status_code = 409, content = None\<rparr>"
    by (simp add: lab_net_def plain_request_def)
  have src: "source_type (source umds_settings) = ''UMDS''"
    "umds_url (source umds_settings) = ''https://umds.local/depot''"
    by (simp_all add: umds_settings_def)
  have reread: "lab_net hist (plain_request lab_world GET UPDATE_POLICY_PATH None) =
      Some \<lparr>status_code = 200, content = Some lab_policy\<rparr>" for hist
    by (simp add: lab_net_def plain_request_def)
  have down: "\<forall>hist q. http_verb q \<noteq> POST \<longrightarrow> down_net hist q = lab_net hist q"
    by (simp add: down_net_def lab_net_def)
  note inst = configure_registers_depot
      [where net = lab_net and w = lab_world and s = umds_settings, OF written]
  note c1 = inst [THEN conjunct1]
  note c4 = inst [THEN conjunct2, THEN conjunct2, THEN conjunct2, THEN conjunct1, rule_format,
      of "\<lparr>status_code = 200, content = Some lab_policy\<rparr>" lab_policy]
  note c5 = inst [THEN conjunct2, THEN conjunct2, THEN conjunct2, THEN conjunct2, rule_format,
      of down_net]
  from c1
  have posts: "filter (\<lambda>q. http_verb q = POST)
       (issued (configure_download_settings lab_net umds_settings) lab_world) =
       [plain_request lab_world POST DEPOT_CONTENT_PATH
          (Some (depot_spec ''https://umds.local/depot''))]"
    by (simp add: src)
  from c4
  have res: "fst (configure_download_settings lab_net umds_settings lab_world) = Inr lab_policy"
    by (simp add: reread)
  from c5 down
  have same: "configure_download_settings down_net umds_settings lab_world =
       configure_download_settings lab_net umds_settings lab_world"
    by blast
  from written conflict posts res same show ?thesis by blast
qed

text \<open>
  C4. \<open>ProxySettings.to_dict()\<close> is exactly \<open>{"enabled": false}\<close> when the proxy is
  disabled; exactly the keys \<open>enabled\<close>, \<open>server\<close>, \<open>port\<close> when it is enabled with an
  empty username; and exactly the five keys \<open>enabled\<close>, \<open>server\<close>, \<open>port\<close>,
  \<open>username\<close>, \<open>password\<close> when it is enabled with a non-empty username.
\<close>

theorem ProxySettings_to_dict_keys:
  "ProxySettings_to_dict p =
     (if \<not> enabled p then JDict [(''enabled'', JBool False)]
      else if username p = []
      then JDict [(''enabled'', JBool True), (''server'', JStr (server p)),
                  (''port'', JInt (port p))]
      else JDict [(''enabled'', JBool True), (''server'', JStr (server p)),
                  (''port'', JInt (port p)), (''username'', JStr (username p)),
                  (''password'', JStr (password p))])"
  by (simp add: ProxySettings_to_dict_def)

text \<open>
  C5, as stated: the days for which a \<open>DownloadSchedule\<close> can be constructed are nine
  values. They are not: no set of nine days characterises the successful constructions.
\<close>

theorem DownloadSchedule_nine_days_counterexample:
  "\<not> (\<exists>S :: string set. card S = 9 \<and>
        (\<forall>e d h m. (\<exists>s. DownloadSchedule_init e d h m = Inr s) \<longleftrightarrow>
           d \<in> S \<and> 0 \<le> h \<and> h \<le> 23 \<and> 0 \<le> m \<and> m \<le> 59))"
proof
  assume "\<exists>S :: string set. card S = 9 \<and>
        (\<forall>e d h m. (\<exists>s. DownloadSchedule_init e d h m = Inr s) \<longleftrightarrow>
           d \<in> S \<and> 0 \<le> h \<and> h \<le> 23 \<and> 0 \<le> m \<and> m \<le> 59)"
  then obtain S :: "string set" where nine: "card S = 9"
    and iff: "\<And>e d h m. (\<exists>s. DownloadSchedule_init e d h m = Inr s) \<longleftrightarrow>
           d \<in> S \<and> 0 \<le> h \<and> h \<le> 23 \<and> 0 \<le> m \<and> m \<le> 59"
    by blast
  have "d \<in> S \<longleftrightarrow> d \<in> VALID_DAYS" for d
    using iff [of True d 0 0] DownloadSchedule_init_ok_iff [of True d 0 0] by simp
  then have "S = VALID_DAYS" by blast
  with nine card_VALID_DAYS show False by simp
qed

text \<open>
  C5, amended. For every \<open>(day, hour, minute)\<close>, constructing a \<open>DownloadSchedule\<close>
  succeeds if and only if \<open>day\<close> is one of the eight values \<open>EVERYDAY\<close>,
  \<open>MONDAY\<close> .. \<open>SUNDAY\<close>, \<open>hour\<close> is in [0,23] and \<open>minute\<close> is in [0,59]. On
  failure it raises the \<open>ValueError\<close> of the first offending field among day, hour,
  minute, carrying the offending value; on success \<open>to_dict()\<close> is exactly the four fields
  \<open>enabled\<close>, \<open>day\<close>, \<open>hour\<close>, \<open>minute\<close> with the constructed values.
\<close>

theorem DownloadSchedule_init_validation:
  "card {''EVERYDAY'', ''MONDAY'', ''TUESDAY'', ''WEDNESDAY'',
         ''THURSDAY'', ''FRIDAY'', ''SATURDAY'', ''SUNDAY''} = (8::nat)
   \<and> ((\<exists>s. DownloadSchedule_init e d h m = Inr s) \<longleftrightarrow>
        d \<in> {''EVERYDAY'', ''MONDAY'', ''TUESDAY'', ''WEDNESDAY'',
              ''THURSDAY'', ''FRIDAY'', ''SATURDAY'', ''SUNDAY''}
        \<and> 0 \<le> h \<and> h \<le> 23 \<and> 0 \<le> m \<and> m \<le> 59)
   \<and> (d \<notin> VALID_DAYS \<longrightarrow> DownloadSchedule_init e d h m = Inl (ValueError_day d))
   \<and> (d \<in> VALID_DAYS \<and> (h < 0 \<or> 23 < h) \<longrightarrow>
        DownloadSchedule_init e d h m = Inl (ValueError_hour h))
   \<and> (d \<in> VALID_DAYS \<and> 0 \<le> h \<and> h \<le> 23 \<and> (m < 0 \<or> 59 < m) \<longrightarrow>
        DownloadSchedule_init e d h m = Inl (ValueError_minute m))
   \<and> (\<forall>s. DownloadSchedule_init e d h m = Inr s \<longrightarrow>
        DownloadSchedule_to_dict s =
          JDict [(''enabled'', JBool e), (''day'', JStr d),
                 (''hour'', JInt h), (''minute'', JInt m)])"
proof -
  have days: "VALID_DAYS = {''EVERYDAY'', ''MONDAY'', ''TUESDAY'', ''WEDNESDAY'',
         ''THURSDAY'', ''FRIDAY'', ''SATURDAY'', ''SUNDAY''}"
    by (simp add: VALID_DAYS_def)
  have c: "card {''EVERYDAY'', ''MONDAY'', ''TUESDAY'', ''WEDNESDAY'',
         ''THURSDAY'', ''FRIDAY'', ''SATURDAY'', ''SUNDAY''} = (8::nat)"
    using card_VALID_DAYS by (simp only: days)
  have ok: "(\<exists>s. DownloadSchedule_init e d h m = Inr s) \<longleftrightarrow>
        d \<in> {''EVERYDAY'', ''MONDAY'', ''TUESDAY'', ''WEDNESDAY'',
              ''THURSDAY'', ''FRIDAY'', ''SATURDAY'', ''SUNDAY''}
        \<and> 0 \<le> h \<and> h \<le> 23 \<and> 0 \<le> m \<and> m \<le> 59"
    using DownloadSchedule_init_ok_iff [of e d h m] by (simp only: days)
  have e1: "d \<notin> VALID_DAYS \<longrightarrow> DownloadSchedule_init e d h m = Inl (ValueError_day d)"
    by (simp add: DownloadSchedule_init_def)
  have e2: "d \<in> VALID_DAYS \<and> (h < 0 \<or> 23 < h) \<longrightarrow>
        DownloadSchedule_init e d h m = Inl (ValueError_hour h)"
    by (auto simp add: DownloadSchedule_init_def)
  have e3: "d \<in> VALID_DAYS \<and> 0 \<le> h \<and> h \<le> 23 \<and> (m < 0 \<or> 59 < m) \<longrightarrow>
        DownloadSchedule_init e d h m = Inl (ValueError_minute m)"
    by (auto simp add: DownloadSchedule_init_def)
  have rt: "\<forall>s. DownloadSchedule_init e d h m = Inr s \<longrightarrow>
        DownloadSchedule_to_dict s =
          JDict [(''enabled'', JBool e), (''day'', JStr d),
                 (''hour'', JInt h), (''minute'', JInt m)]"
    by (auto simp add: DownloadSchedule_init_def DownloadSchedule_to_dict_def
        split: if_splits)
  from c ok e1 e2 e3 rt show ?thesis by blast
qed

theorem DownloadSchedule_init_validation_witness:
  "DownloadSchedule_to_dict \<lparr>sched_enabled = True, day = ''MONDAY'', hour = 3, minute = 30\<rparr> =
     JDict [(''enabled'', JBool True), (''day'', JStr ''MONDAY''),
            (''hour'', JInt 3), (''minute'', JInt 30)]
   \<and> DownloadSchedule_init True ''MONDAY'' 3 30 =
       Inr \<lparr>sched_enabled = True, day = ''MONDAY'', hour = 3, minute = 30\<rparr>
   \<and> DownloadSchedule_init True ''FUNDAY'' 24 60 = Inl (ValueError_day ''FUNDAY'')
   \<and> DownloadSchedule_init True ''MONDAY'' 24 60 = Inl (ValueError_hour 24)
   \<and> DownloadSchedule_init True ''MONDAY'' 23 60 = Inl (ValueError_minute 60)"
proof -
  have ok: "DownloadSchedule_init True ''MONDAY'' 3 30 =
       Inr \<lparr>sched_enabled = True, day = ''MONDAY'', hour = 3, minute = 30\<rparr>"
    by (simp add: DownloadSchedule_init_def VALID_DAYS_def)
  have mem: "''MONDAY'' \<in> VALID_DAYS" "''FUNDAY'' \<notin> VALID_DAYS"
    by (simp_all add: VALID_DAYS_def)
  show ?thesis
    using ok mem
      DownloadSchedule_init_validation [of True "''MONDAY''" 3 30]
      DownloadSchedule_init_validation [of True "''FUNDAY''" 24 60]
      DownloadSchedule_init_validation [of True "''MONDAY''" 24 60]
      DownloadSchedule_init_validation [of True "''MONDAY''" 23 60]
    by simp
qed

text \<open>
  C6. \<open>disable_auto_download\<close> is \<open>configure_download_settings\<close> on the settings with
  \<open>auto_check_enabled = false\<close>, \<open>auto_download_enabled = false\<close>,
  \<open>schedule.enabled = false\<close> and the source and the proxy at their construction defaults
  (\<open>INTERNET\<close>, proxy disabled). Its first request is the PUT of the policy shown (nothing
  is read before), and every later request is a GET: one write, with no proxy key and no
  depot registration, whatever the remote state.
\<close>

theorem disable_auto_download_writes_defaults:
  "disable_auto_download net w =
     configure_download_settings net
       \<lparr>auto_check_enabled = False, auto_download_enabled = JBool False,
        schedule = \<lparr>sched_enabled = False, day = ''EVERYDAY'', hour = 2, minute = 0\<rparr>,
        source = \<lparr>source_type = ''INTERNET'', umds_url = []\<rparr>,
        proxy = \<lparr>enabled = False, server = [], port = 80, username = [], password = []\<rparr>\<rparr> w
   \<and> (\<exists>rest. issued (disable_auto_download net) w =
         plain_request w PUT UPDATE_POLICY_PATH
           (Some (JDict [(''custom_URL'', JStr []), (''auto_stage'', JBool False),
                         (''check_schedule'',
                            JList [JDict [(''enabled'', JBool False), (''day'', JStr ''EVERYDAY''),
                                          (''hour'', JInt 2), (''minute'', JInt 0)]]),
                         (''username'', JStr []), (''password'', JStr [])]))
         # rest
       \<and> filter (\<lambda>q. http_verb q \<noteq> GET) rest = [])"
proof -
  let ?s = "\<lparr>auto_check_enabled = False, auto_download_enabled = JBool False,
        schedule = \<lparr>sched_enabled = False, day = ''EVERYDAY'', hour = 2, minute = 0\<rparr>,
        source = \<lparr>source_type = ''INTERNET'', umds_url = []\<rparr>,
        proxy = \<lparr>enabled = False, server = [], port = 80, username = [], password = []\<rparr>\<rparr>"
  have run: "disable_auto_download net w = configure_download_settings net ?s w"
    by (simp add: disable_auto_download_def io_bind_def io_lift_def DownloadSchedule_init_def
        DownloadSettings_init_def DownloadSource_init_def VALID_DAYS_def)
  have pol: "configure_policy ?s =
      JDict [(''custom_URL'', JStr []), (''auto_stage'', JBool False),
             (''check_schedule'',
                JList [JDict [(''enabled'', JBool False), (''day'', JStr ''EVERYDAY''),
                              (''hour'', JInt 2), (''minute'', JInt 0)]]),
             (''username'', JStr []), (''password'', JStr [])]"
    by (simp add: configure_policy_def DownloadSchedule_to_dict_def)
  have same: "issued (disable_auto_download net) w = issued (configure_download_settings net ?s) w"
    by (simp add: issued_def run)
  have "\<exists>rest. issued (configure_download_settings net ?s) w =
         plain_request w PUT UPDATE_POLICY_PATH (Some (configure_policy ?s)) # rest
       \<and> filter (\<lambda>q. http_verb q \<noteq> GET) rest = []"
    by (simp add: issued_configure plain_request_def)
  with run same pol show ?thesis by simp
qed

text \<open>
  C7. Two settings values that differ only in \<open>auto_check_enabled\<close> make
  \<open>configure_download_settings\<close> the same function of the world: the same requests, the
  same result, the same final state.
\<close>

theorem configure_ignores_auto_check_enabled:
  "configure_download_settings net (s\<lparr>auto_check_enabled := b\<rparr>) =
     configure_download_settings net s"
  by (simp add: configure_download_settings_def configure_policy_def)

text \<open>
  C8. Constructing a \<open>DownloadSource\<close> succeeds exactly when \<open>source_type\<close> is
  \<open>"INTERNET"\<close> or \<open>"UMDS"\<close>, and raises the \<open>ValueError\<close> naming \<open>source_type\<close>
  otherwise; \<open>umds_url\<close> is never looked at, so every string is accepted, the empty one
  with \<open>"UMDS"\<close> included.
\<close>

theorem DownloadSource_init_validation:
  "((\<exists>s. DownloadSource_init st u = Inr s) \<longleftrightarrow> st \<in> {''INTERNET'', ''UMDS''})
   \<and> (st \<notin> {''INTERNET'', ''UMDS''} \<longrightarrow>
        DownloadSource_init st u = Inl (ValueError_source_type st))
   \<and> (st \<in> {''INTERNET'', ''UMDS''} \<longrightarrow>
        DownloadSource_init st u = Inr \<lparr>source_type = st, umds_url = u\<rparr>)
   \<and> DownloadSource_init ''UMDS'' [] = Inr \<lparr>source_type = ''UMDS'', umds_url = []\<rparr>"
  by (auto simp add: DownloadSource_init_def)

theorem DownloadSource_init_validation_witness:
  "DownloadSource_init ''FTP'' ''https://umds.local/depot'' = Inl (ValueError_source_type ''FTP'')
   \<and> DownloadSource_init ''UMDS'' ''not a url'' =
       Inr \<lparr>source_type = ''UMDS'', umds_url = ''not a url''\<rparr>
   \<and> DownloadSource_init ''UMDS'' [] = Inr \<lparr>source_type = ''UMDS'', umds_url = []\<rparr>"
  using DownloadSource_init_validation [of "''FTP''" "''https://umds.local/depot''"]
    DownloadSource_init_validation [of "''UMDS''" "''not a url''"]
  by simp

text \<open>
  C9. \<open>get_download_settings\<close> issues exactly one request, the GET of the update-policy
  resource, leaves the client as it is, and returns the body of an accepted response as
  it came.
\<close>

theorem get_download_settings_single_get:
  "issued (get_download_settings net) w = [plain_request w GET UPDATE_POLICY_PATH None]
   \<and> client (snd (get_download_settings net w)) = client w
   \<and> (\<forall>r body. net (sent w) (plain_request w GET UPDATE_POLICY_PATH None) = Some r
         \<and> \<not> (400 \<le> status_code r \<and> status_code r < 600)
         \<and> content r = Some body
        \<longrightarrow> fst (get_download_settings net w) = Inr body)"
  by (simp add: issued_get_download_settings get_download_settings_unfold checked_def
      response_json_def)

theorem get_download_settings_single_get_witness:
  "issued (get_download_settings lab_net) lab_world =
     [\<lparr>http_verb = GET, url = ''https://vc.lab/api/appliance/update/policy'',
       headers = [(''vmware-api-session-id'', JStr ''tok'')], verify = False,
       auth = None, json_body = None\<rparr>]
   \<and> fst (get_download_settings lab_net lab_world) = Inr lab_policy"
proof -
  have rq: "plain_request lab_world GET UPDATE_POLICY_PATH None =
     \<lparr>http_verb = GET, url = ''https://vc.lab/api/appliance/update/policy'',
       headers = [(''vmware-api-session-id'', JStr ''tok'')], verify = False,
       auth = None, json_body = None\<rparr>"
    by (simp add: plain_request_def lab_world_def VCenterClient_init_def UPDATE_POLICY_PATH_def)
  have rep: "lab_net (sent lab_world) (plain_request lab_world GET UPDATE_POLICY_PATH None) =
     Some \<lparr>status_code = 200, content = Some lab_policy\<rparr>"
    by (simp add: lab_net_def plain_request_def)
  show ?thesis
    using get_download_settings_single_get [of lab_net lab_world] rq rep by simp
qed

text \<open>
  C10. \<open>logout\<close> is idempotent. With no active session it issues no request and leaves
  the state unchanged. With an active session it issues one DELETE and, when that
  returns, the session id is \<open>None\<close>. Whenever \<open>logout\<close> returns, a second \<open>logout\<close>
  changes nothing, and \<open>logout\<close> twice in a row is \<open>logout\<close> once.
\<close>

theorem logout_idempotent:
  "(\<not> truthy (session_id (client w)) \<longrightarrow>
      logout net w = (Inr (), w) \<and> issued (logout net) w = [])
   \<and> io_bind (logout net) (\<lambda>_. logout net) w = logout net w
   \<and> (\<forall>w'. logout net w = (Inr (), w') \<longrightarrow>
        \<not> truthy (session_id (client w')) \<and> logout net w' = (Inr (), w'))
   \<and> (truthy (session_id (client w)) \<longrightarrow>
        issued (logout net) w =
          [plain_request w DELETE ''/api/session'' None]
        \<and> (\<forall>w'. logout net w = (Inr (), w') \<longrightarrow> session_id (client w') = JNull))"
proof -
  have a: "\<not> truthy (session_id (client w)) \<longrightarrow>
      logout net w = (Inr (), w) \<and> issued (logout net) w = []"
    by (simp add: logout_inactive issued_def)
  have b: "\<forall>w'. logout net w = (Inr (), w') \<longrightarrow>
        \<not> truthy (session_id (client w')) \<and> logout net w' = (Inr (), w')"
    using logout_returns_cleared logout_inactive by blast
  have c: "truthy (session_id (client w)) \<longrightarrow>
        issued (logout net) w = [plain_request w DELETE ''/api/session'' None]
        \<and> (\<forall>w'. logout net w = (Inr (), w') \<longrightarrow> session_id (client w') = JNull)"
    by (auto simp add: logout_def io_bind_def session_send_def Let_def issued_def
        plain_request_def split: option.splits)
  from a b c logout_twice show ?thesis by blast
qed

theorem logout_idempotent_witness:
  "logout lab_net idle_world = (Inr (), idle_world)
   \<and> issued (logout lab_net) idle_world = []
   \<and> truthy (session_id (client lab_world))
   \<and> map http_verb (issued (logout lab_net) lab_world) = [DELETE]
   \<and> fst (logout lab_net lab_world) = Inr ()
   \<and> session_id (client (snd (logout lab_net lab_world))) = JNull
   \<and> logout lab_net (snd (logout lab_net lab_world)) = (Inr (), snd (logout lab_net lab_world))
   \<and> io_bind (logout lab_net) (\<lambda>_. logout lab_net) lab_world = logout lab_net lab_world"
proof -
  have idle: "\<not> truthy (session_id (client idle_world))"
    by (simp add: idle_world_def VCenterClient_init_def)
  have active: "truthy (session_id (client lab_world))"
    by (simp add: lab_world_def)
  have returns: "fst (logout lab_net lab_world) = Inr ()"
    by (simp add: logout_def active io_bind_def session_send_def Let_def lab_net_def)
  then have ret: "logout lab_net lab_world = (Inr (), snd (logout lab_net lab_world))"
    by (metis prod.collapse)
  from logout_idempotent [of idle_world lab_net] idle
  have i: "logout lab_net idle_world = (Inr (), idle_world) \<and> issued (logout lab_net) idle_world = []"
    by blast
  from logout_idempotent [of lab_world lab_net] active
  have a: "issued (logout lab_net) lab_world = [plain_request lab_world DELETE ''/api/session'' None]"
    by blast
  from logout_idempotent [of lab_world lab_net] active ret
  have cleared: "session_id (client (snd (logout lab_net lab_world))) = JNull"
    by blast
  from logout_idempotent [of lab_world lab_net] ret
  have again: "logout lab_net (snd (logout lab_net lab_world)) =
      (Inr (), snd (logout lab_net lab_world))"
    by blast
  from logout_idempotent [of lab_world lab_net]
  have t: "io_bind (logout lab_net) (\<lambda>_. logout lab_net) lab_world = logout lab_net lab_world"
    by blast
  have v: "map http_verb [plain_request lab_world DELETE ''/api/session'' None] = [DELETE]"
    by (simp add: plain_request_def)
  from i active a returns cleared again t v show ?thesis by (simp only: simp_thms)
qed

end
